theory Spec2Isabelle
  imports Main
begin

section \<open>The dispatch message format of \<^verbatim>\<open>index.js\<close>\<close>

text \<open>
  The module-level constants of \<^verbatim>\<open>index.js\<close> (lines 61-63). The separator is a
  one-character string, so it is a \<^typ>\<open>char\<close> here.
\<close>

definition separator :: char where
  "separator = CHR ''_''"

definition thirdPartyBlocked :: string where
  "thirdPartyBlocked = ''3PBlocked''"

definition thirdPartyIncluded :: string where
  "thirdPartyIncluded = ''3PIncluded''"

text \<open>
  JavaScript's \<^verbatim>\<open>String.prototype.split\<close> with a one-character separator: the
  tokens between the occurrences of the separator, empty tokens kept; the empty string
  gives the one-element array \<^verbatim>\<open>[""]\<close>.
\<close>

fun split :: "char \<Rightarrow> string \<Rightarrow> string list" where
  "split sep [] = [[]]"
| "split sep (c # cs) =
     (if c = sep then [] # split sep cs
      else (case split sep cs of
              t # ts \<Rightarrow> (c # t) # ts
            | [] \<Rightarrow> [[c]]))"

text \<open>
  Reading an array element: \<^verbatim>\<open>msgParts[i]\<close> is \<^verbatim>\<open>undefined\<close> (here \<open>None\<close>)
  beyond the end of the array and never faults.
\<close>

definition at_index :: "'a list \<Rightarrow> nat \<Rightarrow> 'a option" where
  "at_index xs i = (if i < length xs then Some (xs ! i) else None)"

text \<open>
  The template string of \<^verbatim>\<open>sendAllPubsubMsgs\<close> (lines 256-260):
  \<^verbatim>\<open>`${id}${separator}${mode}${separator}${device}${separator}${executionId}`\<close>.
\<close>

definition encodeMsg :: "string \<Rightarrow> string \<Rightarrow> string \<Rightarrow> string \<Rightarrow> string" where
  "encodeMsg ident mode device executionId =
     ident @ separator # mode @ separator # device @ separator # executionId"

text \<open>
  The steps of the parsing at the top of \<^verbatim>\<open>launchLighthouse\<close>:
  \<^verbatim>\<open>msgParts = msg.split(separator)\<close> (line 383), \<^verbatim>\<open>idMsg = msgParts[0]\<close> (line 384) and
  \<^verbatim>\<open>executionId = msgParts[3] || 'no_execution_id'\<close> (line 411). The empty string is
  falsy, so an empty fourth token is replaced by the default, as an absent one is. The
  record holds what the handler has decoded: \<^verbatim>\<open>idMsg\<close>, the mode token \<^verbatim>\<open>msgParts[1]\<close>
  (lines 386, 413), the device token \<^verbatim>\<open>msgParts[2]\<close> (lines 389, 413) and
  \<^verbatim>\<open>executionId\<close>.
\<close>

definition msgParts_of :: "string \<Rightarrow> string list" where
  "msgParts_of msg = split separator msg"

definition idMsg_of :: "string list \<Rightarrow> string option" where
  "idMsg_of msgParts = at_index msgParts 0"

definition executionId_of :: "string list \<Rightarrow> string" where
  "executionId_of msgParts =
     (case at_index msgParts 3 of
        None \<Rightarrow> ''no_execution_id''
      | Some t \<Rightarrow> if t = [] then ''no_execution_id'' else t)"

record decoded =
  idMsg :: "string option"
  modeToken :: "string option"
  deviceToken :: "string option"
  executionId :: string

section \<open>Faults\<close>

text \<open>
  Every exception the modelled code can raise is a value. A fault that leaves an
  \<^verbatim>\<open>async\<close> function rejects its promise.
\<close>

datatype fault =
    ReferenceError string  \<comment> \<open>an identifier that is not in scope; the string is its name\<close>
  | TypeError string       \<comment> \<open>a property read on \<^verbatim>\<open>undefined\<close>\<close>
  | DownloadFailed         \<comment> \<open>the store, or the local file, refused the read\<close>
  | NotFound               \<comment> \<open>no object at the path\<close>
  | SyntaxError            \<comment> \<open>\<^verbatim>\<open>JSON.parse\<close> on text that is not JSON\<close>
  | RangeError             \<comment> \<open>an array length that is not a number\<close>
  | SaveFailed             \<comment> \<open>the store refused the write\<close>
  | PublishFailed          \<comment> \<open>the message sink refused the message\<close>

section \<open>Configuration and environment\<close>

text \<open>
  The fields of \<^verbatim>\<open>config.json\<close> that the modelled functions read, as parameters:
  \<^verbatim>\<open>config.source\<close>, the list of \<^verbatim>\<open>{id, url}\<close> objects (the field \<^verbatim>\<open>id\<close> is \<open>tid\<close>
  here), \<^verbatim>\<open>config.minTimeBetweenTriggers\<close> in milliseconds, and
  \<^verbatim>\<open>config.lighthouseFlags\<close>.
\<close>

record target =
  tid :: string
  url :: string

record lighthouse_flags =
  blockedUrlPatterns :: "string list option"
  emulatedFormFactor :: "string option"

record config =
  source :: "target list"
  minTimeBetweenTriggers :: int
  lighthouseFlags :: lighthouse_flags

text \<open>
  The variables of \<^verbatim>\<open>process.env\<close> that decide control flow. A variable is
  \<^verbatim>\<open>undefined\<close> (\<open>None\<close>) or a string, and it is truthy when it is a non-empty
  string.
\<close>

record env =
  SOURCE_URL :: "string option"
  THIRDPARTY_TO_BLOCK :: "string option"

definition truthy :: "string option \<Rightarrow> bool" where
  "truthy v = (case v of None \<Rightarrow> False | Some s \<Rightarrow> s \<noteq> [])"

section \<open>The state store and the gate \<^verbatim>\<open>checkEventState\<close>\<close>

text \<open>
  What \<^verbatim>\<open>JSON.parse\<close> returns. Numbers are whole: the timestamps of the program are
  \<^verbatim>\<open>Date.getTime()\<close> values, whole milliseconds, and they are \<^typ>\<open>int\<close> here. An object
  is the map of its own properties.
\<close>

datatype json =
    JNull
  | JBool bool
  | JNum int
  | JStr string
  | JArr "json list"
  | JObj "string \<Rightarrow> json option"

text \<open>
  An object of the bucket holds text on which \<^verbatim>\<open>JSON.parse\<close> throws, or the JSON text of
  a value (\<^verbatim>\<open>JSON.parse\<close> of \<^verbatim>\<open>JSON.stringify\<close> of a value of this type is the value).
\<close>

datatype blob = Garbage | Json json

text \<open>
  The bucket \<^verbatim>\<open>process.env.BUCKET_NAME || config.gcs.bucketName\<close>: its objects by path,
  whether the store answers the download that the call issues and accepts the save
  that it issues, and the saves that the store has accepted, in order.
\<close>

record storage =
  objects :: "string \<rightharpoonup> blob"
  readable :: bool
  writable :: bool
  saves :: "(string \<times> blob) list"

definition statePath :: "string \<Rightarrow> string" where
  "statePath ident = ident @ ''/state.json''"

text \<open>
  The download writes the local file \<^verbatim>\<open>/tmp/state_<id>.json\<close> (line 318). The file
  system refuses that name when the id contains a slash (the name then lies in a
  directory \<^verbatim>\<open>/tmp/state_...\<close> that nothing creates) or a NUL byte, or when the file
  name is longer than 255 bytes.
\<close>

definition localPathOk :: "string \<Rightarrow> bool" where
  "localPathOk ident =
     (CHR ''/'' \<notin> set ident \<and> CHR 0x00 \<notin> set ident
      \<and> length (''state_'' @ ident @ ''.json'') \<le> 255)"

text \<open>
  The body of the \<^verbatim>\<open>try\<close> block, lines 317-323: download the object to the local
  file, read the file, parse it.
\<close>

definition loadEventStates :: "storage \<Rightarrow> string \<Rightarrow> fault + json" where
  "loadEventStates st ident =
     (if \<not> readable st \<or> \<not> localPathOk ident then Inl DownloadFailed
      else (case objects st (statePath ident) of
              None \<Rightarrow> Inl NotFound
            | Some Garbage \<Rightarrow> Inl SyntaxError
            | Some (Json v) \<Rightarrow> Inr v))"

text \<open>
  Reading a string as a number, as the subtraction of line 329 does with a \<^verbatim>\<open>created\<close>
  that is a string: white space around it is dropped (the ASCII white space here), the
  empty string is 0, and a string of decimal digits with an optional sign is its value.
  Every other string is read as \<^verbatim>\<open>NaN\<close> (\<open>None\<close>); the numerals of JavaScript in
  another notation (a fraction, an exponent, a radix prefix, \<^verbatim>\<open>Infinity\<close>) are not
  modelled.
\<close>

definition isDigit :: "char \<Rightarrow> bool" where
  "isDigit c = (c \<in> set ''0123456789'')"

definition digitVal :: "char \<Rightarrow> nat" where
  "digitVal c = of_char c - 48"

definition decimalOf :: "string \<Rightarrow> nat option" where
  "decimalOf s =
     (if s \<noteq> [] \<and> list_all isDigit s
      then Some (foldl (\<lambda>n c. 10 * n + digitVal c) 0 s)
      else None)"

definition isSpace :: "char \<Rightarrow> bool" where
  "isSpace c = (c \<in> set [CHR '' '', CHR 0x09, CHR 0x0A, CHR 0x0B, CHR 0x0C, CHR 0x0D])"

definition trim :: "string \<Rightarrow> string" where
  "trim s = rev (dropWhile isSpace (rev (dropWhile isSpace s)))"

definition strToNumber :: "string \<Rightarrow> int option" where
  "strToNumber s =
     (case trim s of
        [] \<Rightarrow> Some 0
      | c # r \<Rightarrow>
          if c = CHR ''-'' then map_option (\<lambda>n. - int n) (decimalOf r)
          else if c = CHR ''+'' then map_option int (decimalOf r)
          else map_option int (decimalOf (c # r)))"

text \<open>
  The number that an element of an array is read as when the array is turned into a
  string and the string into a number: \<^verbatim>\<open>null\<close> gives the empty string, a nested array
  its own string, and an array of two or more elements a string with a comma, which is
  not a number.
\<close>

primrec elemNumber :: "json \<Rightarrow> int option" where
  "elemNumber JNull = Some 0"
| "elemNumber (JBool b) = None"
| "elemNumber (JNum n) = Some n"
| "elemNumber (JStr s) = strToNumber s"
| "elemNumber (JArr xs) = (case map elemNumber xs of [] \<Rightarrow> Some 0 | [r] \<Rightarrow> r | _ \<Rightarrow> None)"
| "elemNumber (JObj m) = None"

text \<open>\<^verbatim>\<open>ToNumber\<close> of a value, \<open>None\<close> for \<^verbatim>\<open>NaN\<close>.\<close>

definition toNumber :: "json \<Rightarrow> int option" where
  "toNumber v = (case v of JBool b \<Rightarrow> Some (if b then 1 else 0) | _ \<Rightarrow> elemNumber v)"

text \<open>
  \<^verbatim>\<open>x.created\<close> as a number, for a value \<open>x\<close> that \<^verbatim>\<open>eventStates[id]\<close> holds: a TypeError
  on \<^verbatim>\<open>null\<close>; \<^verbatim>\<open>undefined\<close>, hence \<^verbatim>\<open>NaN\<close>, on a boolean, a number, a string, an array and
  an object without the property.
\<close>

definition createdOf :: "json \<Rightarrow> fault + int option" where
  "createdOf x =
     (case x of
        JNull \<Rightarrow> Inl (TypeError ''created'')
      | JObj e \<Rightarrow> Inr (case e ''created'' of None \<Rightarrow> None | Some c \<Rightarrow> toNumber c)
      | _ \<Rightarrow> Inr None)"

text \<open>
  The keys that are indices of an array: the decimal numerals without a leading zero
  below \<open>2^32 - 1\<close>.
\<close>

definition arrayIndex :: "string \<Rightarrow> nat option" where
  "arrayIndex s =
     (case decimalOf s of
        None \<Rightarrow> None
      | Some n \<Rightarrow>
          if (s = ''0'' \<or> take 1 s \<noteq> ''0'') \<and> n < 4294967295 then Some n else None)"

text \<open>
  Line 329, \<^verbatim>\<open>id in eventStates && (timeNow - eventStates[id].created)\<close>. On \<^verbatim>\<open>null\<close>, a
  boolean, a number or a string, \<^verbatim>\<open>in\<close> is a TypeError. For an own key of an object, or
  an index within an array, the value is \<^verbatim>\<open>timeNow\<close> minus the number read from
  \<^verbatim>\<open>created\<close>. For any other key it is not a number: \<^verbatim>\<open>false\<close> when \<^verbatim>\<open>in\<close> is false, and
  \<^verbatim>\<open>NaN\<close> when the key is \<^verbatim>\<open>length\<close> on an array or a name inherited from the prototype
  (there \<^verbatim>\<open>in\<close> is true and \<^verbatim>\<open>.created\<close> is \<^verbatim>\<open>undefined\<close>). \<^verbatim>\<open>false\<close> and \<^verbatim>\<open>NaN\<close> are both
  falsy, and both are \<open>None\<close> here.
\<close>

definition delta_of :: "json \<Rightarrow> string \<Rightarrow> int \<Rightarrow> fault + int option" where
  "delta_of eventStates ident timeNow =
     (case eventStates of
        JObj m \<Rightarrow>
          (case m ident of
             None \<Rightarrow> Inr None
           | Some x \<Rightarrow> map_sum id (map_option (\<lambda>c. timeNow - c)) (createdOf x))
      | JArr xs \<Rightarrow>
          (case arrayIndex ident of
             None \<Rightarrow> Inr None
           | Some i \<Rightarrow>
               if i < length xs
               then map_sum id (map_option (\<lambda>c. timeNow - c)) (createdOf (xs ! i))
               else Inr None)
      | _ \<Rightarrow> Inl (TypeError ''in''))"

text \<open>
  The guard of line 330, \<^verbatim>\<open>delta && delta < config.minTimeBetweenTriggers\<close>: a number is
  truthy unless it is 0.
\<close>

definition withinCooldown :: "int \<Rightarrow> int option \<Rightarrow> bool" where
  "withinCooldown minTime d =
     (case d of None \<Rightarrow> False | Some n \<Rightarrow> n \<noteq> 0 \<and> n < minTime)"

text \<open>
  \<^verbatim>\<open>Math.round(delta/1000)\<close> for a whole number of milliseconds: the nearest integer,
  a half rounded towards plus infinity.
\<close>

definition roundSeconds :: "int \<Rightarrow> int" where
  "roundSeconds d = (d + 500) div 1000"

text \<open>The object \<^verbatim>\<open>{created: timeNow}\<close> of line 335.\<close>

definition newEntry :: "int \<Rightarrow> json" where
  "newEntry timeNow = JObj [''created'' \<mapsto> JNum timeNow]"

text \<open>
  Line 335, \<^verbatim>\<open>eventStates[id] = {created: timeNow}\<close>, with what \<^verbatim>\<open>JSON.stringify\<close> (line
  336) then writes, which is the own properties of an object and the elements of an
  array. On an object the assignment creates or overwrites the own property, with one
  exception of the language: for the key \<^verbatim>\<open>__proto__\<close>, when the object has no own
  property of that name, the assignment runs the setter inherited from
  \<^verbatim>\<open>Object.prototype\<close>, which replaces the prototype and creates no own property. On an
  array, an index sets the element, the array growing with holes that are written as
  \<^verbatim>\<open>null\<close>; the key \<^verbatim>\<open>length\<close> is a RangeError; any other key is a property that is not
  written. (Line 335 is not reached with another value: line 329 has thrown.)
\<close>

definition assignEntry :: "json \<Rightarrow> string \<Rightarrow> int \<Rightarrow> fault + json" where
  "assignEntry eventStates ident timeNow =
     (case eventStates of
        JObj m \<Rightarrow>
          Inr (if ident = ''__proto__'' \<and> m ident = None then JObj m
               else JObj (m(ident \<mapsto> newEntry timeNow)))
      | JArr xs \<Rightarrow>
          (if ident = ''length'' then Inl RangeError
           else (case arrayIndex ident of
                   None \<Rightarrow> Inr (JArr xs)
                 | Some i \<Rightarrow>
                     Inr (JArr (if i < length xs then xs[i := newEntry timeNow]
                                else xs @ replicate (i - length xs) JNull @ [newEntry timeNow]))))
      | _ \<Rightarrow> Inl (TypeError ''in''))"

text \<open>
  Lines 336-338: the save, which is not inside any \<^verbatim>\<open>try\<close>. An accepted save replaces
  the object and is recorded.
\<close>

definition saveEventStates :: "storage \<Rightarrow> string \<Rightarrow> json \<Rightarrow> fault + storage" where
  "saveEventStates st ident eventStates =
     (if writable st
      then Inr (st\<lparr>objects := (objects st)(statePath ident \<mapsto> Json eventStates),
                  saves := saves st @ [(statePath ident, Json eventStates)]\<rparr>)
      else Inl SaveFailed)"

text \<open>
  The returned object: \<^verbatim>\<open>{active: true, delta: ...}\<close> or \<^verbatim>\<open>{active: false}\<close>, where the
  field \<^verbatim>\<open>delta\<close> is absent.
\<close>

record gate_result =
  active :: bool
  delta :: "int option"

text \<open>
  Lines 315-326: \<^verbatim>\<open>eventStates\<close> after the \<^verbatim>\<open>try\<close>. A fault of the load is caught and
  logged and leaves \<^verbatim>\<open>eventStates = {}\<close>.
\<close>

definition eventStatesOf :: "storage \<Rightarrow> string \<Rightarrow> json" where
  "eventStatesOf st ident =
     (case loadEventStates st ident of
        Inl e \<Rightarrow> JObj Map.empty
      | Inr v \<Rightarrow> v)"

text \<open>
  \<^verbatim>\<open>checkEventState(id, timeNow)\<close>, lines 313-340, reading the global \<^verbatim>\<open>config\<close>. A
  fault of line 329, of line 335 or of the save rejects the call. The result is the
  value or the fault of the call, with the store afterwards.
\<close>

definition checkEventState ::
    "config \<Rightarrow> storage \<Rightarrow> string \<Rightarrow> int \<Rightarrow> (fault + gate_result) \<times> storage" where
  "checkEventState cfg st ident timeNow =
     (let eventStates = eventStatesOf st ident
      in case delta_of eventStates ident timeNow of
           Inl e \<Rightarrow> (Inl e, st)
         | Inr d \<Rightarrow>
             if withinCooldown (minTimeBetweenTriggers cfg) d
             then (Inr \<lparr>active = True, delta = map_option roundSeconds d\<rparr>, st)
             else (case assignEntry eventStates ident timeNow of
                     Inl e \<Rightarrow> (Inl e, st)
                   | Inr eventStates' \<Rightarrow>
                       (case saveEventStates st ident eventStates' of
                          Inl e \<Rightarrow> (Inl e, st)
                        | Inr st' \<Rightarrow> (Inr \<lparr>active = False, delta = None\<rparr>, st'))))"

section \<open>The fan-out \<^verbatim>\<open>sendAllPubsubMsgs\<close>\<close>

text \<open>
  \<^verbatim>\<open>uuidv1()\<close> takes the next identifier of a source: the identifiers it hands out, by
  number, and how many it has handed out.
\<close>

record uuid_source =
  uuidText :: "nat \<Rightarrow> string"
  issued :: nat

definition uuidv1 :: "uuid_source \<Rightarrow> string \<times> uuid_source" where
  "uuidv1 g = (uuidText g (issued g), g\<lparr>issued := Suc (issued g)\<rparr>)"

text \<open>
  The sink: \<^verbatim>\<open>pubsub.topic(...).publisher().publish(buffer)\<close> is accepted or rejected by
  the environment, given here as a predicate on the message.
\<close>

definition publish :: "(string \<Rightarrow> bool) \<Rightarrow> string \<Rightarrow> fault + unit" where
  "publish accepts buffer = (if accepts buffer then Inr () else Inl PublishFailed)"

text \<open>
  \<^verbatim>\<open>sendToPubsub(msg)\<close>, lines 229-244. What it did is read from its log line:
  \<^verbatim>\<open>Pubsub sent: ...\<close> after an accepted publish (line 237),
  \<^verbatim>\<open>Failed to sent Pubsub msg: ...\<close> in the \<^verbatim>\<open>catch\<close> (line 241). The \<^verbatim>\<open>catch\<close> does not
  rethrow, so the function returns normally on both paths.
\<close>

datatype send_log = Sent string | FailedToSend string

definition sendToPubsub :: "(string \<Rightarrow> bool) \<Rightarrow> string \<Rightarrow> send_log list \<times> (fault + unit)" where
  "sendToPubsub accepts msg =
     (case publish accepts msg of
        Inr u \<Rightarrow> ([Sent msg], Inr ())
      | Inl e \<Rightarrow> ([FailedToSend msg], Inr ()))"

definition messageOf :: "send_log \<Rightarrow> string" where
  "messageOf l = (case l of Sent m \<Rightarrow> m | FailedToSend m \<Rightarrow> m)"

text \<open>
  \<^verbatim>\<open>await p; q\<close> inside an \<^verbatim>\<open>async\<close> function: when \<open>p\<close> rejects, the function rejects
  with the same fault and \<open>q\<close> does not run.
\<close>

definition andThen ::
    "send_log list \<times> (fault + unit) \<Rightarrow> send_log list \<times> (fault + unit)
      \<Rightarrow> send_log list \<times> (fault + unit)" where
  "andThen p q = (case snd p of Inl e \<Rightarrow> p | Inr u \<Rightarrow> (fst p @ fst q, snd q))"

text \<open>The callback of \<^verbatim>\<open>ids.map\<close>, lines 254-262, for one id.\<close>

definition sendForId ::
    "(string \<Rightarrow> bool) \<Rightarrow> string option \<Rightarrow> string \<Rightarrow> string
      \<Rightarrow> send_log list \<times> (fault + unit)" where
  "sendForId accepts thirdPartyToBlock execId ident =
     andThen (sendToPubsub accepts (encodeMsg ident thirdPartyIncluded ''mobile'' execId))
    (andThen (sendToPubsub accepts (encodeMsg ident thirdPartyIncluded ''desktop'' execId))
       (if truthy thirdPartyToBlock
        then andThen (sendToPubsub accepts (encodeMsg ident thirdPartyBlocked ''mobile'' execId))
                     (sendToPubsub accepts (encodeMsg ident thirdPartyBlocked ''desktop'' execId))
        else ([], Inr ())))"

text \<open>
  \<^verbatim>\<open>Promise.all\<close>: the array of the values when every promise resolves, a rejection
  otherwise (of the promises that reject, the model takes the first of the array).
\<close>

fun promiseAll :: "(fault + 'a) list \<Rightarrow> fault + 'a list" where
  "promiseAll [] = Inr []"
| "promiseAll (Inl e # ps) = Inl e"
| "promiseAll (Inr v # ps) =
     (case promiseAll ps of Inl e \<Rightarrow> Inl e | Inr vs \<Rightarrow> Inr (v # vs))"

text \<open>
  \<^verbatim>\<open>sendAllPubsubMsgs(ids)\<close>, lines 252-263. The callbacks run interleaved; the model
  keeps the log of each callback apart, in the order of \<^verbatim>\<open>ids\<close>, and does not order
  the sends of different ids. \<open>settled\<close> is the outcome of the returned promise.
\<close>

record dispatch =
  sends :: "send_log list list"
  settled :: "fault + unit list"

definition sendAllPubsubMsgs ::
    "(string \<Rightarrow> bool) \<Rightarrow> string option \<Rightarrow> uuid_source \<Rightarrow> string list
      \<Rightarrow> dispatch \<times> uuid_source" where
  "sendAllPubsubMsgs accepts thirdPartyToBlock g ids =
     (let (execId, g') = uuidv1 g;
          runs = map (sendForId accepts thirdPartyToBlock execId) ids
      in (\<lparr>sends = map fst runs, settled = promiseAll (map snd runs)\<rparr>, g'))"

section \<open>The trigger handler \<^verbatim>\<open>launchLighthouse\<close>\<close>

text \<open>
  What a call of the handler touches: the bucket, the source of uuids, the sink and the
  clock read by \<^verbatim>\<open>new Date().getTime()\<close>.
\<close>

record world =
  bucket :: storage
  uuids :: uuid_source
  sinkAccepts :: "string \<Rightarrow> bool"
  clock :: int

text \<open>
  Lines 385-391: the copy of \<^verbatim>\<open>config.lighthouseFlags\<close>, with the blocked patterns when
  the mode token is \<^verbatim>\<open>3PBlocked\<close> and the form factor when the device token is truthy.
  \<^verbatim>\<open>process.env.THIRDPARTY_TO_BLOCK.split(',')\<close> is a TypeError when the variable is
  not set.
\<close>

definition flagsFor :: "env \<Rightarrow> config \<Rightarrow> string list \<Rightarrow> fault + lighthouse_flags" where
  "flagsFor ev cfg msgParts =
     (case (if at_index msgParts 1 = Some thirdPartyBlocked
            then (case THIRDPARTY_TO_BLOCK ev of
                    None \<Rightarrow> Inl (TypeError ''split'')
                  | Some s \<Rightarrow> Inr ((lighthouseFlags cfg)
                               \<lparr>blockedUrlPatterns := Some (split (CHR '','') s)\<rparr>))
            else Inr (lighthouseFlags cfg)) of
        Inl e \<Rightarrow> Inl e
      | Inr flags \<Rightarrow>
          Inr (case at_index msgParts 2 of
                 None \<Rightarrow> flags
               | Some t \<Rightarrow> if t = [] then flags else flags\<lparr>emulatedFormFactor := Some t\<rparr>))"

text \<open>\<^verbatim>\<open>ids.includes(idMsg)\<close>.\<close>

definition includesId :: "string list \<Rightarrow> string option \<Rightarrow> bool" where
  "includesId ids t = (case t of None \<Rightarrow> False | Some s \<Rightarrow> s \<in> set ids)"

text \<open>
  How a call of the handler ends: its promise rejects with a fault; or it logs
  \<^verbatim>\<open>No valid message found!\<close> and returns (line 402); or it returns the promise of the
  fan-out (line 405). There is no other end: on the single-job path, line 427 reads
  \<^verbatim>\<open>eventState\<close>, which is declared with \<^verbatim>\<open>const\<close> inside the \<^verbatim>\<open>try\<close> block of
  lines 417-420 and is not in scope after it, so the read is a ReferenceError and
  lines 428-493 (the audit, the report and the BigQuery insert) are never reached.
\<close>

datatype outcome =
    Rejected fault
  | NoValidMessage
  | Dispatched dispatch

text \<open>
  Lines 383-427, the body of the handler as a function of \<^verbatim>\<open>msg\<close> and of the target
  list \<^verbatim>\<open>source\<close>. The gate is called with the whole message as its key (line 419); a
  fault of the gate is caught and logged (lines 421-424). The flags of lines 385-391, the
  job id of line 394 and the target, url and execution id of lines 408-411 are used by
  the log line and by the audit only; computing the latter cannot fault, since the id
  is among the ids of the targets there.
\<close>

definition handleMsg :: "env \<Rightarrow> config \<Rightarrow> target list \<Rightarrow> world \<Rightarrow> string \<Rightarrow> outcome \<times> world" where
  "handleMsg ev cfg src w msg =
     (let msgParts = msgParts_of msg;
          idm = idMsg_of msgParts
      in case flagsFor ev cfg msgParts of
           Inl e \<Rightarrow> (Rejected e, w)
         | Inr flags \<Rightarrow>
             (let ids = map tid src;
                  (uuid, g1) = uuidv1 (uuids w);
                  w1 = w\<lparr>uuids := g1\<rparr>
              in if idm \<noteq> Some ''all'' \<and> \<not> includesId ids idm then (NoValidMessage, w1)
                 else if idm = Some ''all''
                 then (let (d, g2) = sendAllPubsubMsgs (sinkAccepts w1)
                                       (THIRDPARTY_TO_BLOCK ev) g1 ids
                       in (Dispatched d, w1\<lparr>uuids := g2\<rparr>))
                 else (let timeNow = clock w1;
                           (r, st') = checkEventState cfg (bucket w1) msg timeNow
                       in (Rejected (ReferenceError ''eventState''), w1\<lparr>bucket := st'\<rparr>))))"

text \<open>
  Line 382 binds \<^verbatim>\<open>msg\<close> to a string literal: the expression that would decode the
  event is written inside double quotes.
\<close>

definition msgLiteral :: string where
  "msgLiteral = ''Buffer.from(event.data, 'base64').toString()''"

text \<open>
  The trigger event; \<open>payload\<close> is the text that the publisher sent, which
  \<^verbatim>\<open>event.data\<close> carries in base64.
\<close>

record event =
  payload :: string

text \<open>
  \<^verbatim>\<open>launchLighthouse(event, callback)\<close>, lines 349-494. With \<^verbatim>\<open>SOURCE_URL\<close> set, line 367
  reads \<^verbatim>\<open>externalSource\<close>, declared with \<^verbatim>\<open>const\<close> inside the \<^verbatim>\<open>try\<close> block of lines
  360-362 and not in scope at line 367: a ReferenceError. Otherwise the targets are
  \<^verbatim>\<open>config.source\<close>. The event is not read.
\<close>

definition launchLighthouse :: "env \<Rightarrow> config \<Rightarrow> world \<Rightarrow> event \<Rightarrow> outcome \<times> world" where
  "launchLighthouse ev cfg w event =
     (if truthy (SOURCE_URL ev) then (Rejected (ReferenceError ''externalSource''), w)
      else handleMsg ev cfg (source cfg) w msgLiteral)"

text \<open>
  What the handler decodes from an event: lines 382-384, 386, 389 and 411, with the
  binding of \<^verbatim>\<open>msg\<close> of line 382.
\<close>

definition decodeEvent :: "event \<Rightarrow> decoded" where
  "decodeEvent event =
     (let msg = msgLiteral;
          msgParts = msgParts_of msg
      in \<lparr> idMsg = idMsg_of msgParts,
           modeToken = at_index msgParts 1,
           deviceToken = at_index msgParts 2,
           executionId = executionId_of msgParts \<rparr>)"

section \<open>Derived notions and sample inputs\<close>

text \<open>
  The template strings of lines 256-260 for one id, in the order of the source: the two
  \<^verbatim>\<open>3PIncluded\<close> messages, then, under the guard of line 258, the two \<^verbatim>\<open>3PBlocked\<close> ones.
\<close>

definition messagesFor :: "string option \<Rightarrow> string \<Rightarrow> string \<Rightarrow> string list" where
  "messagesFor thirdPartyToBlock execId ident =
     [encodeMsg ident thirdPartyIncluded ''mobile'' execId,
      encodeMsg ident thirdPartyIncluded ''desktop'' execId]
     @ (if truthy thirdPartyToBlock
        then [encodeMsg ident thirdPartyBlocked ''mobile'' execId,
              encodeMsg ident thirdPartyBlocked ''desktop'' execId]
        else [])"

text \<open>The log line of one send, as the sink decides it.\<close>

definition logOf :: "(string \<Rightarrow> bool) \<Rightarrow> string \<Rightarrow> send_log" where
  "logOf accepts m = (if accepts m then Sent m else FailedToSend m)"

text \<open>Sample sinks, uuid source, configuration, stores and events.\<close>

definition acceptAll :: "string \<Rightarrow> bool" where
  "acceptAll m = True"

definition rejectAll :: "string \<Rightarrow> bool" where
  "rejectAll m = False"

definition failOneMessage :: "string \<Rightarrow> bool" where
  "failOneMessage m = (m \<noteq> ''A_3PIncluded_mobile_batch-x'')"

definition uuids0 :: uuid_source where
  "uuids0 = \<lparr> uuidText = (\<lambda>n. ''batch-'' @ replicate (Suc n) (CHR ''x'')), issued = 0 \<rparr>"

definition cfg15 :: config where
  "cfg15 = \<lparr> source = [\<lparr>tid = ''site1'', url = ''https://example.com/''\<rparr>],
             minTimeBetweenTriggers = 900000,
             lighthouseFlags = \<lparr>blockedUrlPatterns = None, emulatedFormFactor = None\<rparr> \<rparr>"

definition emptyStore :: storage where
  "emptyStore = \<lparr> objects = Map.empty, readable = True, writable = True, saves = [] \<rparr>"

text \<open>The state object that an admitted call for \<^verbatim>\<open>site1\<close> at time 1000 leaves.\<close>

definition site1Table :: "string \<rightharpoonup> json" where
  "site1Table = [''site1'' \<mapsto> newEntry 1000]"


text \<open>A state object whose entry carries a second property beside \<^verbatim>\<open>created\<close>.\<close>

definition notedEntry :: "string \<rightharpoonup> json" where
  "notedEntry = [''created'' \<mapsto> JNum 1000, ''note'' \<mapsto> JStr ''manual'']"

definition notedTable :: "string \<rightharpoonup> json" where
  "notedTable = [''site1'' \<mapsto> JObj notedEntry]"

definition notedStore :: storage where
  "notedStore =
     \<lparr> objects = [statePath ''site1'' \<mapsto> Json (JObj notedTable)],
       readable = True, writable = True, saves = [] \<rparr>"

definition corruptStore :: storage where
  "corruptStore =
     \<lparr> objects = [statePath ''site1'' \<mapsto> Garbage],
       readable = True, writable = True, saves = [] \<rparr>"

text \<open>A store that is out of reach: it answers no download and accepts no save.\<close>

definition unreachableStore :: storage where
  "unreachableStore =
     \<lparr> objects = [statePath ''site1'' \<mapsto> Json (JObj site1Table)],
       readable = False, writable = False, saves = [] \<rparr>"

definition twoSiteStore :: storage where
  "twoSiteStore =
     \<lparr> objects = [statePath ''site1'' \<mapsto> Json (JObj site1Table),
                  statePath ''site2'' \<mapsto> Json (JObj [''site2'' \<mapsto> newEntry 2000])],
       readable = True, writable = True, saves = [] \<rparr>"

definition otherSiteStore :: storage where
  "otherSiteStore =
     \<lparr> objects = [statePath ''site1'' \<mapsto> Json (JObj site1Table),
                  statePath ''site2'' \<mapsto> Garbage],
       readable = True, writable = True, saves = [] \<rparr>"

definition env0 :: env where
  "env0 = \<lparr> SOURCE_URL = None, THIRDPARTY_TO_BLOCK = None \<rparr>"

definition envUrl :: env where
  "envUrl = \<lparr> SOURCE_URL = Some ''https://example.com/source.json'', THIRDPARTY_TO_BLOCK = None \<rparr>"

definition world0 :: world where
  "world0 = \<lparr> bucket = emptyStore, uuids = uuids0, sinkAccepts = acceptAll, clock = 1000 \<rparr>"

definition allEvent :: event where
  "allEvent = \<lparr> payload = ''all'' \<rparr>"

text \<open>
  The event that carries the first message of a fan-out for \<^verbatim>\<open>site1\<close>, and an event
  whose payload has an empty first token.
\<close>

definition site1Event :: event where
  "site1Event = \<lparr> payload = encodeMsg ''site1'' thirdPartyIncluded ''mobile'' ''batch-x'' \<rparr>"

definition emptyIdEvent :: event where
  "emptyIdEvent = \<lparr> payload = ''_3PIncluded_mobile'' \<rparr>"

section \<open>Splitting and joining\<close>

lemma split_not_Nil: "split sep s \<noteq> []"
  by (induction s) (auto split: list.splits)

lemma split_no_sep: "sep \<notin> set s \<Longrightarrow> split sep s = [s]"
  by (induction s) auto

lemma split_field: "sep \<notin> set a \<Longrightarrow> split sep (a @ sep # rest) = a # split sep rest"
  by (induction a) auto

lemma split_four:
  assumes "sep \<notin> set a" "sep \<notin> set b" "sep \<notin> set c" "sep \<notin> set d"
  shows "split sep (a @ sep # b @ sep # c @ sep # d) = [a, b, c, d]"
  using assms by (simp add: split_field split_no_sep)

lemma msgParts_not_Nil: "msgParts_of msg \<noteq> []"
  by (simp add: msgParts_of_def split_not_Nil)

lemma idMsg_total: "\<exists>tok. idMsg_of (msgParts_of msg) = Some tok"
  using msgParts_not_Nil [of msg] by (simp add: idMsg_of_def at_index_def)

text \<open>
  The split of line 383 would undo the join of lines 256-260, for fields without the
  separator.
\<close>

lemma msgParts_of_encodeMsg:
  assumes "separator \<notin> set ident" and "separator \<notin> set mode"
    and "separator \<notin> set device" and "separator \<notin> set batch"
  shows "msgParts_of (encodeMsg ident mode device batch) = [ident, mode, device, batch]"
  using assms by (simp add: msgParts_of_def encodeMsg_def split_four)

section \<open>The gate\<close>

lemma roundSeconds_near: "\<bar>1000 * roundSeconds d - d\<bar> \<le> 500"
proof -
  have "d + 500 = 1000 * ((d + 500) div 1000) + (d + 500) mod 1000"
    by simp
  moreover have "0 \<le> (d + 500) mod 1000" and "(d + 500) mod 1000 < 1000"
    by simp_all
  ultimately show ?thesis
    unfolding roundSeconds_def by linarith
qed

lemma statePath_inject: "statePath a = statePath b \<longleftrightarrow> a = b"
  by (simp add: statePath_def)

lemma localPathOk_site1: "localPathOk ''site1''"
  by (simp add: localPathOk_def)

lemma loadEventStates_fault:
  "loadEventStates st ident = Inl e \<Longrightarrow> e = DownloadFailed \<or> e = NotFound \<or> e = SyntaxError"
  by (auto simp: loadEventStates_def split: if_splits option.splits blob.splits)

lemma loadEventStates_slash:
  "CHR ''/'' \<in> set ident \<Longrightarrow> loadEventStates st ident = Inl DownloadFailed"
  by (simp add: loadEventStates_def localPathOk_def)

lemma loadEventStates_cong:
  assumes "objects st2 (statePath k) = objects st (statePath k)" and "readable st2 = readable st"
  shows "loadEventStates st2 k = loadEventStates st k"
  using assms by (simp add: loadEventStates_def)

lemma eventStatesOf_failed: "loadEventStates st ident = Inl e \<Longrightarrow> eventStatesOf st ident = JObj Map.empty"
  by (simp add: eventStatesOf_def)

lemma eventStatesOf_loaded: "loadEventStates st ident = Inr v \<Longrightarrow> eventStatesOf st ident = v"
  by (simp add: eventStatesOf_def)


lemma load_notedStore: "loadEventStates notedStore ''site1'' = Inr (JObj notedTable)"
  by (simp add: loadEventStates_def notedStore_def localPathOk_site1)

lemma load_corruptStore: "loadEventStates corruptStore ''site1'' = Inl SyntaxError"
  by (simp add: loadEventStates_def corruptStore_def localPathOk_site1)

lemma load_unreachableStore: "loadEventStates unreachableStore ''site1'' = Inl DownloadFailed"
  by (simp add: loadEventStates_def unreachableStore_def)

text \<open>Line 329 on a table, for a key without an entry and for an entry that the gate has written.\<close>

lemma delta_of_absent: "m ident = None \<Longrightarrow> delta_of (JObj m) ident timeNow = Inr None"
  by (simp add: delta_of_def)

lemma delta_of_created:
  "m ident = Some (JObj e) \<Longrightarrow> e ''created'' = Some (JNum c)
    \<Longrightarrow> delta_of (JObj m) ident timeNow = Inr (Some (timeNow - c))"
  by (simp add: delta_of_def createdOf_def toNumber_def)

text \<open>The debounced branch: the call returns at line 331 and the store is not touched.\<close>

lemma gate_active:
  assumes "eventStatesOf st ident = JObj m"
    and "m ident = Some (JObj e)" and "e ''created'' = Some (JNum c)"
    and "timeNow - c < minTimeBetweenTriggers cfg"
    and "timeNow - c \<noteq> 0"
  shows "checkEventState cfg st ident timeNow =
           (Inr \<lparr>active = True, delta = Some (roundSeconds (timeNow - c))\<rparr>, st)"
  using assms by (simp add: checkEventState_def delta_of_created withinCooldown_def)

text \<open>
  The admitting branch on a table, for every key but \<^verbatim>\<open>__proto__\<close>: when line 329 gives
  a value that is not within the cooldown and the store accepts the save, the call
  returns \<^verbatim>\<open>{active: false}\<close>, and one save is issued, of the table with the entry of the
  key replaced by \<^verbatim>\<open>{created: timeNow}\<close>.
\<close>

lemma gate_admitted:
  assumes "ident \<noteq> ''__proto__''" and "writable st"
    and "eventStatesOf st ident = JObj m"
    and "delta_of (JObj m) ident timeNow = Inr d"
    and "\<not> withinCooldown (minTimeBetweenTriggers cfg) d"
  shows "checkEventState cfg st ident timeNow =
           (Inr \<lparr>active = False, delta = None\<rparr>,
            st\<lparr>objects := (objects st)(statePath ident \<mapsto>
                  Json (JObj (m(ident \<mapsto> newEntry timeNow)))),
               saves := saves st @
                  [(statePath ident, Json (JObj (m(ident \<mapsto> newEntry timeNow))))]\<rparr>)"
  using assms
  by (simp add: checkEventState_def saveEventStates_def assignEntry_def)

text \<open>When the store refuses the save, the call is rejected and the store is as before.\<close>

lemma gate_save_refused:
  assumes "\<not> writable st"
    and "eventStatesOf st ident = JObj m"
    and "delta_of (JObj m) ident timeNow = Inr d"
    and "\<not> withinCooldown (minTimeBetweenTriggers cfg) d"
  shows "checkEventState cfg st ident timeNow = (Inl SaveFailed, st)"
  using assms by (simp add: checkEventState_def saveEventStates_def assignEntry_def)

text \<open>
  State objects that the gate does not write itself. On \<^verbatim>\<open>null\<close> (as on a boolean, a
  number or a string) line 329 throws outside the \<^verbatim>\<open>try\<close>, and the call is rejected; so
  it is on a table whose entry for the key is \<^verbatim>\<open>null\<close>. On an array, a key that is
  neither an index nor \<^verbatim>\<open>length\<close> is admitted and the array is saved as it was, without
  an entry.
\<close>

lemma gate_null_object:
  "eventStatesOf st ident = JNull
    \<Longrightarrow> checkEventState cfg st ident timeNow = (Inl (TypeError ''in''), st)"
  by (simp add: checkEventState_def delta_of_def)

lemma gate_null_entry:
  "eventStatesOf st ident = JObj m \<Longrightarrow> m ident = Some JNull
    \<Longrightarrow> checkEventState cfg st ident timeNow = (Inl (TypeError ''created''), st)"
  by (simp add: checkEventState_def delta_of_def createdOf_def)

lemma gate_array_entry_lost:
  assumes "eventStatesOf st ident = JArr xs" and "arrayIndex ident = None"
    and "ident \<noteq> ''length''" and "writable st"
  shows "checkEventState cfg st ident timeNow =
           (Inr \<lparr>active = False, delta = None\<rparr>,
            st\<lparr>objects := (objects st)(statePath ident \<mapsto> Json (JArr xs)),
               saves := saves st @ [(statePath ident, Json (JArr xs))]\<rparr>)"
  using assms
  by (simp add: checkEventState_def delta_of_def withinCooldown_def assignEntry_def
      saveEventStates_def Let_def)

text \<open>
  Two calls in a row for one key other than \<^verbatim>\<open>__proto__\<close> whose local file name the
  file system takes, on a store that answers: when the first is admitted on a table,
  the second, later by less than the cooldown, is debounced.
\<close>

lemma gate_twice:
  assumes "ident \<noteq> ''__proto__''" and "localPathOk ident"
    and "readable st" and "writable st"
    and "eventStatesOf st ident = JObj m"
    and "fst (checkEventState cfg st ident t1) = Inr \<lparr>active = False, delta = None\<rparr>"
    and "t1 < t2" and "t2 - t1 < minTimeBetweenTriggers cfg"
  shows "fst (checkEventState cfg (snd (checkEventState cfg st ident t1)) ident t2) =
           Inr \<lparr>active = True, delta = Some (roundSeconds (t2 - t1))\<rparr>"
proof -
  obtain d where d: "delta_of (JObj m) ident t1 = Inr d"
    and nw: "\<not> withinCooldown (minTimeBetweenTriggers cfg) d"
    using assms(5,6)
    by (cases "delta_of (JObj m) ident t1")
       (auto simp: checkEventState_def Let_def split: if_splits)
  define st' where "st' = snd (checkEventState cfg st ident t1)"
  have st': "st' = st\<lparr>objects := (objects st)(statePath ident \<mapsto>
                  Json (JObj (m(ident \<mapsto> newEntry t1)))),
               saves := saves st @
                  [(statePath ident, Json (JObj (m(ident \<mapsto> newEntry t1))))]\<rparr>"
    unfolding st'_def using gate_admitted [OF assms(1) assms(4) assms(5) d nw] by simp
  have "loadEventStates st' ident = Inr (JObj (m(ident \<mapsto> newEntry t1)))"
    using assms(2,3) by (simp add: st' loadEventStates_def)
  then have "eventStatesOf st' ident = JObj (m(ident \<mapsto> newEntry t1))"
    by (rule eventStatesOf_loaded)
  from gate_active [OF this, of "[''created'' \<mapsto> JNum t1]" t1 t2 cfg] assms(7,8)
  show ?thesis by (simp add: st'_def newEntry_def)
qed

text \<open>
  C2, at two calls for \<^verbatim>\<open>site1\<close> with the same timestamp 1000, on a bucket without state
  objects and under a cooldown of 15 minutes. The first call is admitted and saves the
  entry \<^verbatim>\<open>{created: 1000}\<close>. For the second the entry loads and the elapsed time 0 is
  below the cooldown, and the call returns \<^verbatim>\<open>{active: false}\<close> all the same; one
  millisecond later it would return \<^verbatim>\<open>{active: true, delta: 0}\<close>.
\<close>

theorem checkEventState_same_millisecond_admitted:
  "fst (checkEventState cfg15 emptyStore ''site1'' 1000) = Inr \<lparr>active = False, delta = None\<rparr>
   \<and> objects (snd (checkEventState cfg15 emptyStore ''site1'' 1000)) (statePath ''site1'')
       = Some (Json (JObj [''site1'' \<mapsto> JObj [''created'' \<mapsto> JNum 1000]]))
   \<and> (1000::int) - 1000 < minTimeBetweenTriggers cfg15
   \<and> fst (checkEventState cfg15 (snd (checkEventState cfg15 emptyStore ''site1'' 1000)) ''site1'' 1000)
       = Inr \<lparr>active = False, delta = None\<rparr>
   \<and> fst (checkEventState cfg15 (snd (checkEventState cfg15 emptyStore ''site1'' 1000)) ''site1'' 1001)
       = Inr \<lparr>active = True, delta = Some 0\<rparr>"
proof -
  let ?t = "[''site1'' \<mapsto> JObj [''created'' \<mapsto> JNum 1000]]"
  define st1 where "st1 = snd (checkEventState cfg15 emptyStore ''site1'' 1000)"
  have w0: "writable emptyStore" and r0: "readable emptyStore"
    by (simp_all add: emptyStore_def)
  have "loadEventStates emptyStore ''site1'' = Inl NotFound"
    by (simp add: loadEventStates_def emptyStore_def localPathOk_site1)
  then have e0: "eventStatesOf emptyStore ''site1'' = JObj Map.empty"
    by (rule eventStatesOf_failed)
  have dn: "delta_of (JObj Map.empty) ''site1'' 1000 = Inr None"
    by (simp add: delta_of_absent)
  have first: "checkEventState cfg15 emptyStore ''site1'' 1000 =
                 (Inr \<lparr>active = False, delta = None\<rparr>,
                  emptyStore\<lparr>objects := (objects emptyStore)(statePath ''site1'' \<mapsto> Json (JObj ?t)),
                             saves := saves emptyStore @ [(statePath ''site1'', Json (JObj ?t))]\<rparr>)"
    using gate_admitted [OF _ w0 e0 dn, of cfg15]
    by (simp add: withinCooldown_def newEntry_def)
  have st1: "objects st1 (statePath ''site1'') = Some (Json (JObj ?t))"
    and w1: "writable st1" and r1: "readable st1"
    unfolding st1_def by (simp_all add: first w0 r0)
  have "loadEventStates st1 ''site1'' = Inr (JObj ?t)"
    using r1 by (simp add: loadEventStates_def st1 localPathOk_site1)
  then have e1: "eventStatesOf st1 ''site1'' = JObj ?t"
    by (rule eventStatesOf_loaded)
  have d0: "delta_of (JObj ?t) ''site1'' 1000 = Inr (Some 0)"
    using delta_of_created [of ?t "''site1''" "[''created'' \<mapsto> JNum 1000]" 1000 1000] by simp
  have second: "fst (checkEventState cfg15 st1 ''site1'' 1000) = Inr \<lparr>active = False, delta = None\<rparr>"
    using gate_admitted [OF _ w1 e1 d0, of cfg15] by (simp add: withinCooldown_def)
  have third: "fst (checkEventState cfg15 st1 ''site1'' 1001) = Inr \<lparr>active = True, delta = Some 0\<rparr>"
    using gate_active [OF e1, of "[''created'' \<mapsto> JNum 1000]" 1000 1001 cfg15]
    by (simp add: cfg15_def roundSeconds_def)
  have cool: "(1000::int) - 1000 < minTimeBetweenTriggers cfg15"
    by (simp add: cfg15_def)
  from first st1 cool second third show ?thesis
    unfolding st1_def by simp
qed



text \<open>
  C8, as amended. For every call in which the load fails (the download is refused, the
  local file cannot be written, there is no object at the path, or its text does not
  parse), for every identity other than \<^verbatim>\<open>__proto__\<close>: the fault of the load is not the
  outcome of the call, which goes on with the empty table. When the store accepts the
  save, the call returns \<^verbatim>\<open>{active: false}\<close> and saves the table that holds the fresh
  entry alone; when the store refuses the save, the call is rejected with the fault of
  the save and the store is as before.
\<close>

theorem checkEventState_read_failure_swallowed:
  assumes "loadEventStates st ident = Inl e" and "ident \<noteq> ''__proto__''"
  shows "fst (checkEventState cfg st ident timeNow) \<noteq> Inl e
         \<and> checkEventState cfg st ident timeNow =
             (if writable st
              then (Inr \<lparr>active = False, delta = None\<rparr>,
                    st\<lparr>objects := (objects st)(statePath ident \<mapsto>
                          Json (JObj [ident \<mapsto> newEntry timeNow])),
                       saves := saves st @
                          [(statePath ident, Json (JObj [ident \<mapsto> newEntry timeNow]))]\<rparr>)
              else (Inl SaveFailed, st))"
proof -
  have tbl: "eventStatesOf st ident = JObj Map.empty"
    using assms(1) by (rule eventStatesOf_failed)
  have d: "delta_of (JObj Map.empty) ident timeNow = Inr None"
    by (simp add: delta_of_absent)
  have nw: "\<not> withinCooldown (minTimeBetweenTriggers cfg) None"
    by (simp add: withinCooldown_def)
  have res: "checkEventState cfg st ident timeNow =
             (if writable st
              then (Inr \<lparr>active = False, delta = None\<rparr>,
                    st\<lparr>objects := (objects st)(statePath ident \<mapsto>
                          Json (JObj [ident \<mapsto> newEntry timeNow])),
                       saves := saves st @
                          [(statePath ident, Json (JObj [ident \<mapsto> newEntry timeNow]))]\<rparr>)
              else (Inl SaveFailed, st))"
  proof (cases "writable st")
    case True
    then show ?thesis
      using gate_admitted [OF assms(2) True tbl d nw] by simp
  next
    case False
    then show ?thesis
      using gate_save_refused [OF False tbl d nw] by simp
  qed
  have "e \<noteq> SaveFailed"
    using loadEventStates_fault [OF assms(1)] by auto
  with res show ?thesis by simp
qed

text \<open>
  C8 as amended, at a state object whose text does not parse, on a store that accepts
  the save.
\<close>

theorem checkEventState_read_failure_swallowed_witness:
  "loadEventStates corruptStore ''site1'' = Inl SyntaxError
   \<and> fst (checkEventState cfg15 corruptStore ''site1'' 1000) = Inr \<lparr>active = False, delta = None\<rparr>
   \<and> objects (snd (checkEventState cfg15 corruptStore ''site1'' 1000)) (statePath ''site1'')
       = Some (Json (JObj [''site1'' \<mapsto> newEntry 1000]))"
  using checkEventState_read_failure_swallowed [OF load_corruptStore, of cfg15 1000]
  by (simp add: load_corruptStore) (simp add: corruptStore_def)

text \<open>
  C8, as stated, fails on a store that is out of reach: the download is refused, so the
  load fails, and the save is refused too, so the call is rejected and the gate fails.
\<close>

theorem checkEventState_unreachable_store_counterexample:
  "loadEventStates unreachableStore ''site1'' = Inl DownloadFailed
   \<and> fst (checkEventState cfg15 unreachableStore ''site1'' 1000) = Inl SaveFailed"
proof
  show "loadEventStates unreachableStore ''site1'' = Inl DownloadFailed"
    by (rule load_unreachableStore)
next
  have "eventStatesOf unreachableStore ''site1'' = JObj Map.empty"
    using load_unreachableStore by (rule eventStatesOf_failed)
  moreover have "\<not> writable unreachableStore"
    by (simp add: unreachableStore_def)
  ultimately show "fst (checkEventState cfg15 unreachableStore ''site1'' 1000) = Inl SaveFailed"
    by (simp add: checkEventState_def delta_of_def withinCooldown_def assignEntry_def
        saveEventStates_def)
qed

text \<open>
  C9. For every identity whose state object loads as a table with an entry whose
  \<^verbatim>\<open>created\<close> equals the current timestamp, on a store that accepts the save, under any
  cooldown: \<^verbatim>\<open>checkEventState\<close> returns \<^verbatim>\<open>{active: false}\<close> (the delta 0 is falsy) and
  issues one save to the state path, of the table in which the entry of the identity,
  whatever else it held, is \<^verbatim>\<open>{created: timeNow}\<close>.
\<close>

theorem checkEventState_zero_elapsed:
  assumes "loadEventStates st ident = Inr (JObj m)"
    and "m ident = Some (JObj e)" and "e ''created'' = Some (JNum timeNow)"
    and "writable st"
  shows "checkEventState cfg st ident timeNow =
           (Inr \<lparr>active = False, delta = None\<rparr>,
            st\<lparr>objects := (objects st)(statePath ident \<mapsto>
                  Json (JObj (m(ident \<mapsto> newEntry timeNow)))),
               saves := saves st @
                  [(statePath ident, Json (JObj (m(ident \<mapsto> newEntry timeNow))))]\<rparr>)"
proof -
  have tbl: "eventStatesOf st ident = JObj m"
    using assms(1) by (rule eventStatesOf_loaded)
  have d: "delta_of (JObj m) ident timeNow = Inr (Some 0)"
    using delta_of_created [of m ident e timeNow timeNow] assms(2,3) by simp
  have a: "assignEntry (JObj m) ident timeNow = Inr (JObj (m(ident \<mapsto> newEntry timeNow)))"
    using assms(2) by (simp add: assignEntry_def)
  show ?thesis
    using assms(4)
    by (simp add: checkEventState_def tbl d a withinCooldown_def saveEventStates_def)
qed

text \<open>
  C9 at an entry for \<^verbatim>\<open>site1\<close> that holds the timestamp 1000 and a note, and a call at
  1000: the call is admitted, one save is issued, and the saved entry is
  \<^verbatim>\<open>{created: 1000}\<close>, without the note.
\<close>

theorem checkEventState_zero_elapsed_witness:
  "fst (checkEventState cfg15 notedStore ''site1'' 1000) = Inr \<lparr>active = False, delta = None\<rparr>
   \<and> saves (snd (checkEventState cfg15 notedStore ''site1'' 1000))
       = [(statePath ''site1'', Json (JObj (notedTable(''site1'' \<mapsto> newEntry 1000))))]
   \<and> (notedTable(''site1'' \<mapsto> newEntry 1000)) ''site1'' \<noteq> notedTable ''site1''"
proof -
  have "notedEntry ''note'' \<noteq> [''created'' \<mapsto> JNum 1000] ''note''"
    by (simp add: notedEntry_def)
  then have "notedEntry \<noteq> [''created'' \<mapsto> JNum 1000]"
    by metis
  then have diff: "(notedTable(''site1'' \<mapsto> newEntry 1000)) ''site1'' \<noteq> notedTable ''site1''"
    by (simp add: notedTable_def newEntry_def)
  from checkEventState_zero_elapsed [OF load_notedStore, of notedEntry 1000 cfg15] diff
  show ?thesis
    by (simp add: notedTable_def notedEntry_def notedStore_def)
qed

lemma gate_objects_elsewhere:
  "p \<noteq> statePath k \<Longrightarrow> objects (snd (checkEventState cfg st k timeNow)) p = objects st p"
  by (auto simp: checkEventState_def saveEventStates_def Let_def split: sum.splits)

lemma gate_switches_kept:
  "readable (snd (checkEventState cfg st k timeNow)) = readable st
   \<and> writable (snd (checkEventState cfg st k timeNow)) = writable st"
  by (auto simp: checkEventState_def saveEventStates_def Let_def split: sum.splits)

text \<open>
  C10. A call of \<^verbatim>\<open>checkEventState\<close> with key \<open>k\<close> leaves the state object of every
  other key \<open>k'\<close> as it was, and its outcome is the same on every store that has the
  same object at the state path of \<open>k\<close> and answers downloads and saves alike: the call
  reads and writes the object at \<^verbatim>\<open>k/state.json\<close> only.
\<close>

theorem checkEventState_frame:
  assumes "k' \<noteq> k"
    and "objects st2 (statePath k) = objects st (statePath k)"
    and "readable st2 = readable st" and "writable st2 = writable st"
  shows "objects (snd (checkEventState cfg st k timeNow)) (statePath k') = objects st (statePath k')
         \<and> fst (checkEventState cfg st2 k timeNow) = fst (checkEventState cfg st k timeNow)"
proof
  from assms(1)
  show "objects (snd (checkEventState cfg st k timeNow)) (statePath k') = objects st (statePath k')"
    by (simp add: gate_objects_elsewhere statePath_inject)
next
  have "loadEventStates st2 k = loadEventStates st k"
    using assms(2,3) by (rule loadEventStates_cong)
  then have "eventStatesOf st2 k = eventStatesOf st k"
    by (simp add: eventStatesOf_def)
  then show "fst (checkEventState cfg st2 k timeNow) = fst (checkEventState cfg st k timeNow)"
    using assms(4)
    by (auto simp: checkEventState_def saveEventStates_def Let_def split: sum.splits)
qed

text \<open>
  C10 at two stores that differ in the state object of \<^verbatim>\<open>site2\<close> only: an admitted call
  for \<^verbatim>\<open>site1\<close> leaves the object of \<^verbatim>\<open>site2\<close> alone and has one outcome on both.
\<close>

theorem checkEventState_frame_witness:
  "objects (snd (checkEventState cfg15 twoSiteStore ''site1'' 5000000)) (statePath ''site2'')
     = Some (Json (JObj [''site2'' \<mapsto> newEntry 2000]))
   \<and> fst (checkEventState cfg15 otherSiteStore ''site1'' 5000000)
     = fst (checkEventState cfg15 twoSiteStore ''site1'' 5000000)"
  using checkEventState_frame [of "''site2''" "''site1''" otherSiteStore twoSiteStore cfg15 5000000]
  by (simp add: twoSiteStore_def otherSiteStore_def statePath_def)

section \<open>The fan-out\<close>

lemma sendToPubsub_eq: "sendToPubsub accepts m = ([logOf accepts m], Inr ())"
  by (simp add: sendToPubsub_def publish_def logOf_def)

lemma sendForId_eq:
  "sendForId accepts b x i = (map (logOf accepts) (messagesFor b x i), Inr ())"
  by (simp add: sendForId_def sendToPubsub_eq andThen_def messagesFor_def)

lemma promiseAll_resolved:
  "promiseAll (map (\<lambda>i. Inr ()) ids) = Inr (replicate (length ids) ())"
  by (induction ids) simp_all

lemma sendAllPubsubMsgs_eq:
  "sendAllPubsubMsgs accepts b g ids =
     (\<lparr> sends = map (\<lambda>i. map (logOf accepts) (messagesFor b (uuidText g (issued g)) i)) ids,
        settled = Inr (replicate (length ids) ()) \<rparr>,
      g\<lparr>issued := Suc (issued g)\<rparr>)"
  by (simp add: sendAllPubsubMsgs_def uuidv1_def sendForId_eq comp_def promiseAll_resolved)

lemma messageOf_logOf: "messageOf (logOf accepts m) = m"
  by (simp add: messageOf_def logOf_def)

text \<open>
  C4. For every list of identities, one call of \<^verbatim>\<open>sendAllPubsubMsgs\<close> takes exactly one
  uuid from the source, and the messages it sends are, for every identity in the order
  of the list, exactly the \<^verbatim>\<open>3PIncluded\<close> messages for \<^verbatim>\<open>mobile\<close> and \<^verbatim>\<open>desktop\<close>, followed
  by the \<^verbatim>\<open>3PBlocked\<close> messages for \<^verbatim>\<open>mobile\<close> and \<^verbatim>\<open>desktop\<close> exactly when
  \<^verbatim>\<open>THIRDPARTY_TO_BLOCK\<close> is truthy, all with that one uuid as their batch id: 4 messages
  per identity with a blocklist, 2 without.
\<close>

theorem sendAllPubsubMsgs_messages:
  "map (map messageOf) (sends (fst (sendAllPubsubMsgs accepts b g ids)))
     = map (messagesFor b (uuidText g (issued g))) ids
   \<and> issued (snd (sendAllPubsubMsgs accepts b g ids)) = Suc (issued g)
   \<and> (\<forall>l \<in> set (sends (fst (sendAllPubsubMsgs accepts b g ids))).
         length l = (if truthy b then 4 else 2))
   \<and> length (sends (fst (sendAllPubsubMsgs accepts b g ids))) = length ids"
proof -
  let ?x = "uuidText g (issued g)"
  have run: "sends (fst (sendAllPubsubMsgs accepts b g ids))
               = map (\<lambda>i. map (logOf accepts) (messagesFor b ?x i)) ids"
    by (simp add: sendAllPubsubMsgs_eq)
  have msgs: "map (map messageOf) (sends (fst (sendAllPubsubMsgs accepts b g ids)))
                = map (messagesFor b ?x) ids"
    by (simp add: run comp_def messageOf_logOf)
  have one: "issued (snd (sendAllPubsubMsgs accepts b g ids)) = Suc (issued g)"
    by (simp add: sendAllPubsubMsgs_eq)
  have count: "length l = (if truthy b then 4 else 2)"
    if "l \<in> set (sends (fst (sendAllPubsubMsgs accepts b g ids)))" for l
  proof -
    from that obtain i where "l = map (logOf accepts) (messagesFor b ?x i)"
      unfolding run by auto
    then show ?thesis by (simp add: messagesFor_def)
  qed
  from msgs one count run show ?thesis by simp
qed

text \<open>
  C4 at the identities \<^verbatim>\<open>[A, B]\<close> without a blocklist and at \<^verbatim>\<open>[A]\<close> with one.
\<close>

theorem sendAllPubsubMsgs_messages_witness:
  "map (map messageOf) (sends (fst (sendAllPubsubMsgs acceptAll None uuids0 [''A'', ''B''])))
     = [[''A_3PIncluded_mobile_batch-x'', ''A_3PIncluded_desktop_batch-x''],
        [''B_3PIncluded_mobile_batch-x'', ''B_3PIncluded_desktop_batch-x'']]
   \<and> map (map messageOf)
         (sends (fst (sendAllPubsubMsgs acceptAll (Some ''ads.example'') uuids0 [''A''])))
     = [[''A_3PIncluded_mobile_batch-x'', ''A_3PIncluded_desktop_batch-x'',
         ''A_3PBlocked_mobile_batch-x'', ''A_3PBlocked_desktop_batch-x'']]"
  using sendAllPubsubMsgs_messages [of acceptAll None uuids0 "[''A'', ''B'']"]
    sendAllPubsubMsgs_messages [of acceptAll "Some ''ads.example''" uuids0 "[''A'']"]
  by (simp add: messagesFor_def encodeMsg_def separator_def thirdPartyIncluded_def
      thirdPartyBlocked_def truthy_def uuids0_def)

text \<open>
  C7, as amended. For every list of identities and every behaviour of the sink, the
  promise that \<^verbatim>\<open>sendAllPubsubMsgs\<close> returns resolves, with one value per identity; a
  refused message is caught and logged inside \<^verbatim>\<open>sendToPubsub\<close> and rejects nothing.
  Every message of every identity is handed to the sink, and whether it is logged as
  sent or as failed depends on the sink's answer for that message alone, so a failure
  blocks no other send.
\<close>

theorem sendAllPubsubMsgs_resolves:
  "settled (fst (sendAllPubsubMsgs accepts b g ids)) = Inr (replicate (length ids) ())
   \<and> sends (fst (sendAllPubsubMsgs accepts b g ids))
       = map (\<lambda>i. map (logOf accepts) (messagesFor b (uuidText g (issued g)) i)) ids"
proof
  have "map snd (map (sendForId accepts b (uuidText g (issued g))) ids) = map (\<lambda>i. Inr ()) ids"
    by (simp add: sendForId_eq comp_def)
  then have "promiseAll (map snd (map (sendForId accepts b (uuidText g (issued g))) ids))
               = Inr (replicate (length ids) ())"
    by (simp only: promiseAll_resolved)
  then show "settled (fst (sendAllPubsubMsgs accepts b g ids)) = Inr (replicate (length ids) ())"
    by (simp add: sendAllPubsubMsgs_def uuidv1_def)
next
  show "sends (fst (sendAllPubsubMsgs accepts b g ids))
          = map (\<lambda>i. map (logOf accepts) (messagesFor b (uuidText g (issued g)) i)) ids"
    by (simp add: sendAllPubsubMsgs_def uuidv1_def sendForId_eq comp_def)
qed

text \<open>
  C7 as amended, at a sink that refuses the first message of \<^verbatim>\<open>A\<close> and accepts the other
  three messages of \<^verbatim>\<open>[A, B]\<close>.
\<close>

theorem sendAllPubsubMsgs_resolves_witness:
  "settled (fst (sendAllPubsubMsgs failOneMessage None uuids0 [''A'', ''B''])) = Inr [(), ()]
   \<and> sends (fst (sendAllPubsubMsgs failOneMessage None uuids0 [''A'', ''B'']))
       = [[FailedToSend ''A_3PIncluded_mobile_batch-x'', Sent ''A_3PIncluded_desktop_batch-x''],
          [Sent ''B_3PIncluded_mobile_batch-x'', Sent ''B_3PIncluded_desktop_batch-x'']]"
  using sendAllPubsubMsgs_resolves [of failOneMessage None uuids0 "[''A'', ''B'']"]
  by (simp add: messagesFor_def logOf_def failOneMessage_def encodeMsg_def separator_def
      thirdPartyIncluded_def truthy_def uuids0_def)

text \<open>
  C7, as stated, fails at a sink that refuses every message: both sends for \<^verbatim>\<open>A\<close> fail,
  no message is accepted, and the promise resolves all the same, with no sink error.
\<close>

theorem sendAllPubsubMsgs_sink_failure_counterexample:
  "publish rejectAll (encodeMsg ''A'' thirdPartyIncluded ''mobile'' ''batch-x'') = Inl PublishFailed
   \<and> settled (fst (sendAllPubsubMsgs rejectAll None uuids0 [''A''])) = Inr [()]
   \<and> sends (fst (sendAllPubsubMsgs rejectAll None uuids0 [''A'']))
       = [[FailedToSend ''A_3PIncluded_mobile_batch-x'',
           FailedToSend ''A_3PIncluded_desktop_batch-x'']]"
  by (simp add: sendAllPubsubMsgs_def sendForId_def sendToPubsub_def andThen_def publish_def
      rejectAll_def uuidv1_def uuids0_def truthy_def encodeMsg_def separator_def
      thirdPartyIncluded_def)

section \<open>The trigger handler\<close>

lemma msgLiteral_parts: "msgParts_of msgLiteral = [msgLiteral]"
  by (simp add: msgParts_of_def msgLiteral_def separator_def)

lemma msgLiteral_not_all: "msgLiteral \<noteq> ''all''"
  by (simp add: msgLiteral_def)

lemma flagsFor_literal: "flagsFor ev cfg [msgLiteral] = Inr (lighthouseFlags cfg)"
  by (simp add: flagsFor_def at_index_def)

lemma flagsFor_total:
  assumes "at_index msgParts 1 = Some thirdPartyBlocked \<longrightarrow> THIRDPARTY_TO_BLOCK ev \<noteq> None"
  shows "\<exists>fl. flagsFor ev cfg msgParts = Inr fl"
  using assms by (auto simp: flagsFor_def split: option.splits)

text \<open>
  The handler body on the literal of line 382: the first token is the whole literal,
  which is not \<^verbatim>\<open>all\<close>, so the body drops the message unless a target has the literal
  as its id, and then it calls the gate and faults at line 427.
\<close>

lemma handleMsg_literal:
  "handleMsg ev cfg src w msgLiteral =
     (if msgLiteral \<in> tid ` set src
      then (Rejected (ReferenceError ''eventState''),
            w\<lparr>uuids := snd (uuidv1 (uuids w)),
              bucket := snd (checkEventState cfg (bucket w) msgLiteral (clock w))\<rparr>)
      else (NoValidMessage, w\<lparr>uuids := snd (uuidv1 (uuids w))\<rparr>))"
  by (simp add: handleMsg_def msgLiteral_parts flagsFor_literal idMsg_of_def at_index_def
      msgLiteral_not_all includesId_def uuidv1_def Let_def split: prod.splits)

text \<open>No call of the handler ends in the fan-out, and none reads the event.\<close>

lemma launchLighthouse_never_dispatches:
  "fst (launchLighthouse ev cfg w event) \<noteq> Dispatched d"
  by (simp add: launchLighthouse_def handleMsg_literal)

lemma launchLighthouse_ignores_event:
  "launchLighthouse ev cfg w e1 = launchLighthouse ev cfg w e2"
  by (simp add: launchLighthouse_def)

text \<open>
  The handler body from line 383 on does route a message whose first token is \<^verbatim>\<open>all\<close>
  to the fan-out over all ids, whatever the other tokens, as long as reading the mode
  token does not fault.
\<close>

lemma handleMsg_all:
  assumes "idMsg_of (msgParts_of msg) = Some ''all''"
    and "flagsFor ev cfg (msgParts_of msg) = Inr fl"
  shows "fst (handleMsg ev cfg src w msg) =
           Dispatched (fst (sendAllPubsubMsgs (sinkAccepts w) (THIRDPARTY_TO_BLOCK ev)
                              (snd (uuidv1 (uuids w))) (map tid src)))"
  using assms by (simp add: handleMsg_def Let_def split: prod.splits)

text \<open>
  C5, at the event whose payload is \<^verbatim>\<open>all\<close>, with one configured target and no
  \<^verbatim>\<open>SOURCE_URL\<close>: the first token of the payload is \<^verbatim>\<open>all\<close>, and the handler logs
  \<^verbatim>\<open>No valid message found!\<close> and returns, without the fan-out.
\<close>

theorem launchLighthouse_all_not_dispatched:
  "idMsg_of (msgParts_of (payload allEvent)) = Some ''all''
   \<and> fst (launchLighthouse env0 cfg15 world0 allEvent) = NoValidMessage"
proof
  show "idMsg_of (msgParts_of (payload allEvent)) = Some ''all''"
    by (simp add: allEvent_def msgParts_of_def idMsg_of_def at_index_def separator_def)
next
  have "msgLiteral \<notin> tid ` set (source cfg15)"
    by (simp add: cfg15_def msgLiteral_def)
  then show "fst (launchLighthouse env0 cfg15 world0 allEvent) = NoValidMessage"
    by (simp add: launchLighthouse_def handleMsg_literal env0_def truthy_def)
qed

text \<open>
  The handler body from line 383 on drops a message whose first token is neither
  \<^verbatim>\<open>all\<close> nor the id of a target, as long as reading the mode token does not fault.
\<close>

lemma handleMsg_drops_unknown:
  assumes "idMsg_of (msgParts_of msg) \<noteq> Some ''all''"
    and "\<not> includesId (map tid src) (idMsg_of (msgParts_of msg))"
    and "flagsFor ev cfg (msgParts_of msg) = Inr fl"
  shows "handleMsg ev cfg src w msg = (NoValidMessage, w\<lparr>uuids := snd (uuidv1 (uuids w))\<rparr>)"
  using assms by (simp add: handleMsg_def Let_def uuidv1_def)

text \<open>With \<^verbatim>\<open>SOURCE_URL\<close> set, every call of the handler ends in the fault of line 367.\<close>

lemma launchLighthouse_source_url:
  "truthy (SOURCE_URL ev)
    \<Longrightarrow> launchLighthouse ev cfg w event = (Rejected (ReferenceError ''externalSource''), w)"
  by (simp add: launchLighthouse_def)

lemma decodeEvent_literal:
  "decodeEvent event =
     \<lparr> idMsg = Some msgLiteral, modeToken = None, deviceToken = None,
       executionId = ''no_execution_id'' \<rparr>"
  by (simp add: decodeEvent_def msgLiteral_parts idMsg_of_def executionId_of_def at_index_def)

text \<open>
  C1, at the event that carries the first message that a fan-out builds for the
  configured target \<^verbatim>\<open>site1\<close>, with no \<^verbatim>\<open>SOURCE_URL\<close>. The handler decodes the literal of
  line 382, not the payload: its identity is the literal, its mode and device are
  \<^verbatim>\<open>undefined\<close>, its batch id is the default; and the message is logged as not valid and
  dropped.
\<close>

theorem launchLighthouse_decodes_literal:
  "payload site1Event = ''site1_3PIncluded_mobile_batch-x''
   \<and> decodeEvent site1Event =
       \<lparr> idMsg = Some msgLiteral, modeToken = None, deviceToken = None,
         executionId = ''no_execution_id'' \<rparr>
   \<and> idMsg (decodeEvent site1Event) \<noteq> Some ''site1''
   \<and> fst (launchLighthouse env0 cfg15 world0 site1Event) = NoValidMessage"
proof (intro conjI)
  show "payload site1Event = ''site1_3PIncluded_mobile_batch-x''"
    by (simp add: site1Event_def encodeMsg_def separator_def thirdPartyIncluded_def)
  show "decodeEvent site1Event =
          \<lparr> idMsg = Some msgLiteral, modeToken = None, deviceToken = None,
            executionId = ''no_execution_id'' \<rparr>"
    by (rule decodeEvent_literal)
  have "msgLiteral \<noteq> ''site1''"
    by (simp add: msgLiteral_def)
  then show "idMsg (decodeEvent site1Event) \<noteq> Some ''site1''"
    by (simp add: decodeEvent_literal)
  have "msgLiteral \<notin> tid ` set (source cfg15)"
    by (simp add: cfg15_def msgLiteral_def)
  then show "fst (launchLighthouse env0 cfg15 world0 site1Event) = NoValidMessage"
    by (simp add: launchLighthouse_def handleMsg_literal env0_def truthy_def)
qed

text \<open>
  C6, at an event whose payload has an empty first token, with \<^verbatim>\<open>SOURCE_URL\<close> set: the
  call of the handler is not a logged drop, it ends in a ReferenceError that nothing
  catches.
\<close>

theorem launchLighthouse_source_url_fault:
  "idMsg_of (msgParts_of (payload emptyIdEvent)) = Some []
   \<and> fst (launchLighthouse envUrl cfg15 world0 emptyIdEvent)
       = Rejected (ReferenceError ''externalSource'')"
proof
  show "idMsg_of (msgParts_of (payload emptyIdEvent)) = Some []"
    by (simp add: emptyIdEvent_def msgParts_of_def idMsg_of_def at_index_def separator_def)
next
  have "truthy (SOURCE_URL envUrl)"
    by (simp add: envUrl_def truthy_def)
  then show "fst (launchLighthouse envUrl cfg15 world0 emptyIdEvent)
               = Rejected (ReferenceError ''externalSource'')"
    by (simp add: launchLighthouse_source_url)
qed

end
